theory Spec2Isabelle
  imports Complex_Main "HOL-Library.Sublist"
begin

section \<open>Script values and native exceptions\<close>

text \<open>
  A C++ \<^verbatim>\<open>double\<close>, as far as \<^verbatim>\<open>js_util.hpp\<close> looks at it: the code asks
  \<^verbatim>\<open>isnan\<close> and converts to \<^verbatim>\<open>size_t\<close>. Every finite double is a rational.
  \<open>Infinity True\<close> is \<open>+\<infinity>\<close>, \<open>Infinity False\<close> is \<open>-\<infinity>\<close>.
\<close>

datatype double = NaN | Infinity bool | Finite rat

text \<open>
  The values of the scripting runtime (\<^verbatim>\<open>JSValueRef\<close>) and its objects
  (\<^verbatim>\<open>JSObjectRef\<close>). An object is an array, a plain object with its own properties in
  insertion order, an error object (its message and, when it wraps one, the raw script
  value), or an object whose property reads run script code: the getter returns the value
  (\<open>Inr\<close>) or raises a script exception (\<open>Inl\<close>).
\<close>

datatype jsvalue =
    JSUndefined
  | JSNull
  | JSBoolean bool
  | JSNumber double
  | JSString string
  | JSObject jsobject
and jsobject =
    JSArray "jsvalue list"
  | JSPlain "(string \<times> jsvalue) list"
  | JSError string "jsvalue option"
  | JSCustom "string \<Rightarrow> jsvalue + jsvalue"

text \<open>A \<^verbatim>\<open>JSValueRef\<close> variable may hold \<^verbatim>\<open>NULL\<close>: \<open>None\<close>.\<close>

type_synonym JSValueRef = "jsvalue option"

text \<open>
  The parts of the engine behind \<^verbatim>\<open>JSContextRef\<close> that this file calls and that
  depend on script code: number conversion of strings and objects (which may raise a
  script exception), and the string rendering of a value.
\<close>

record JSContext =
  ToNumber_other :: "jsvalue \<Rightarrow> jsvalue + double"
  JSValueToStringCopy :: "jsvalue \<Rightarrow> string"

text \<open>
  The native exceptions the file throws and catches, by their C++ class.
  \<^verbatim>\<open>RJSException\<close> (a \<^verbatim>\<open>std::runtime_error\<close>) keeps the raw script exception;
  \<open>StdException\<close> is any other class derived from \<^verbatim>\<open>std::exception\<close>.
\<close>

datatype native_exception =
    InvalidArgument string
  | OutOfRange string
  | RuntimeError string
  | RJSException string jsvalue
  | StdException string

fun what :: "native_exception \<Rightarrow> string" where
  "what (InvalidArgument m) = m"
| "what (OutOfRange m) = m"
| "what (RuntimeError m) = m"
| "what (RJSException m v) = m"
| "what (StdException m) = m"

section \<open>Engine primitives\<close>

fun JSValueIsNull :: "jsvalue \<Rightarrow> bool" where
  "JSValueIsNull JSNull = True"
| "JSValueIsNull _ = False"

fun JSValueIsBoolean :: "jsvalue \<Rightarrow> bool" where
  "JSValueIsBoolean (JSBoolean b) = True"
| "JSValueIsBoolean _ = False"

fun JSValueIsNumber :: "jsvalue \<Rightarrow> bool" where
  "JSValueIsNumber (JSNumber d) = True"
| "JSValueIsNumber _ = False"

text \<open>\<^verbatim>\<open>JSValueToBoolean\<close>: the truthiness of a value.\<close>

fun JSValueToBoolean :: "jsvalue \<Rightarrow> bool" where
  "JSValueToBoolean JSUndefined = False"
| "JSValueToBoolean JSNull = False"
| "JSValueToBoolean (JSBoolean b) = b"
| "JSValueToBoolean (JSNumber NaN) = False"
| "JSValueToBoolean (JSNumber (Infinity s)) = True"
| "JSValueToBoolean (JSNumber (Finite r)) = (r \<noteq> 0)"
| "JSValueToBoolean (JSString s) = (s \<noteq> [])"
| "JSValueToBoolean (JSObject ob) = True"

text \<open>
  \<^verbatim>\<open>JSValueToNumber\<close>: the primitives convert as the language fixes it (\<^verbatim>\<open>null\<close> to
  zero); strings and objects are the context's.
\<close>

fun JSValueToNumber :: "JSContext \<Rightarrow> jsvalue \<Rightarrow> jsvalue + double" where
  "JSValueToNumber ctx JSUndefined = Inr NaN"
| "JSValueToNumber ctx JSNull = Inr (Finite 0)"
| "JSValueToNumber ctx (JSBoolean b) = Inr (Finite (if b then 1 else 0))"
| "JSValueToNumber ctx (JSNumber d) = Inr d"
| "JSValueToNumber ctx v = ToNumber_other ctx v"

fun isnan :: "double \<Rightarrow> bool" where
  "isnan NaN = True"
| "isnan _ = False"

section \<open>Exception bridge\<close>

text \<open>
  Modelled from the spec: \<^verbatim>\<open>RJSStringForValue\<close> is declared in \<^verbatim>\<open>js_util.hpp\<close> and
  defined in a file that is not part of the sources at hand. The spec calls its result
  "the rendered form of that value". An error object renders as the engine's
  \<^verbatim>\<open>Error.prototype.toString\<close> does, its name followed by its message; every other
  value renders as the context's string conversion says.
\<close>

fun RJSStringForValue :: "JSContext \<Rightarrow> jsvalue \<Rightarrow> string" where
  "RJSStringForValue ctx (JSObject (JSError m raw)) =
     (if m = [] then ''Error'' else ''Error: '' @ m)"
| "RJSStringForValue ctx v = JSValueToStringCopy ctx v"

text \<open>
  The constructor of \<^verbatim>\<open>class RJSException\<close>: the message is the rendered script
  exception, and the raw value is kept.
\<close>

definition RJSException_ctor :: "JSContext \<Rightarrow> jsvalue \<Rightarrow> native_exception" where
  "RJSException_ctor ctx ex = RJSException (RJSStringForValue ctx ex) ex"

text \<open>
  Modelled from the spec: the three overloads of \<^verbatim>\<open>RJSMakeError\<close> are declared in
  \<^verbatim>\<open>js_util.hpp\<close> and defined elsewhere. The spec: a native exception is "converted to
  a ScriptError", which is "a script-engine error object carrying a message and,
  optionally, the original raw script exception value it wraps".
\<close>

definition RJSMakeError_string :: "JSContext \<Rightarrow> string \<Rightarrow> jsvalue" where
  "RJSMakeError_string ctx message = JSObject (JSError message None)"

fun RJSMakeError :: "JSContext \<Rightarrow> native_exception \<Rightarrow> jsvalue" where
  "RJSMakeError ctx (RJSException m raw) = JSObject (JSError m (Some raw))"
| "RJSMakeError ctx e = RJSMakeError_string ctx (what e)"

text \<open>
  \<^verbatim>\<open>RJSSetException\<close> assigns the exception slot, passed by reference: the model
  returns the slot's new content.
\<close>

definition RJSSetException :: "JSContext \<Rightarrow> native_exception \<Rightarrow> JSValueRef" where
  "RJSSetException ctx exception = Some (RJSMakeError ctx exception)"

section \<open>Argument validation\<close>

text \<open>
  \<^verbatim>\<open>size_t\<close> counts are compared only, so they are natural numbers. The optional
  message is \<^verbatim>\<open>NULL\<close> (\<open>None\<close>) by default; \<^verbatim>\<open>message ?: "Invalid arguments"\<close>.
  A function that throws returns \<open>Inl\<close> of the exception.
\<close>

definition message_or :: "string option \<Rightarrow> string \<Rightarrow> string" where
  "message_or message dflt = (case message of None \<Rightarrow> dflt | Some m \<Rightarrow> m)"

definition RJSValidateArgumentCount ::
  "nat \<Rightarrow> nat \<Rightarrow> string option \<Rightarrow> native_exception + unit" where
  "RJSValidateArgumentCount argumentCount expected message =
     (if argumentCount \<noteq> expected
      then Inl (InvalidArgument (message_or message ''Invalid arguments''))
      else Inr ())"

definition RJSValidateArgumentCountIsAtLeast ::
  "nat \<Rightarrow> nat \<Rightarrow> string option \<Rightarrow> native_exception + unit" where
  "RJSValidateArgumentCountIsAtLeast argumentCount expected message =
     (if argumentCount < expected
      then Inl (InvalidArgument (message_or message ''Invalid arguments''))
      else Inr ())"

definition RJSValidateArgumentRange ::
  "nat \<Rightarrow> nat \<Rightarrow> nat \<Rightarrow> string option \<Rightarrow> native_exception + unit" where
  "RJSValidateArgumentRange argumentCount mn mx message =
     (if argumentCount < mn \<or> argumentCount > mx
      then Inl (InvalidArgument (message_or message ''Invalid arguments''))
      else Inr ())"

text \<open>
  Sequencing of native statements: when the first throws, the rest of the block does
  not run and the exception propagates.
\<close>

definition and_then ::
  "native_exception + 'a \<Rightarrow> ('a \<Rightarrow> native_exception + 'b) \<Rightarrow> native_exception + 'b" where
  "and_then r k = (case r of Inl e \<Rightarrow> Inl e | Inr x \<Rightarrow> k x)"

section \<open>Validated conversions\<close>

definition RJSValidatedValueToNumber :: "JSContext \<Rightarrow> jsvalue \<Rightarrow> native_exception + double" where
  "RJSValidatedValueToNumber ctx v =
     (if JSValueIsNull v then Inl (InvalidArgument ''`null` is not a number.'')
      else case JSValueToNumber ctx v of
        Inl exception \<Rightarrow> Inl (RJSException_ctor ctx exception)
      | Inr number \<Rightarrow>
          if isnan number then Inl (InvalidArgument ''Value not convertible to a number.'')
          else Inr number)"

text \<open>
  \<^verbatim>\<open>RJSValidatedValueToBoolean\<close> is declared to return \<^verbatim>\<open>double\<close>: the \<^verbatim>\<open>bool\<close> of
  \<^verbatim>\<open>JSValueToBoolean\<close> is converted to \<open>1.0\<close> or \<open>0.0\<close> on return.
\<close>

definition double_of_bool :: "bool \<Rightarrow> double" where
  "double_of_bool b = Finite (if b then 1 else 0)"

definition RJSValidatedValueToBoolean :: "JSContext \<Rightarrow> jsvalue \<Rightarrow> native_exception + double" where
  "RJSValidatedValueToBoolean ctx v =
     (if \<not> JSValueIsBoolean v then Inl (InvalidArgument ''Value is not a boolean.'')
      else Inr (double_of_bool (JSValueToBoolean v)))"

section \<open>The index parser\<close>

text \<open>
  \<^verbatim>\<open>stot<long>\<close> reads a \<^verbatim>\<open>long\<close> from a \<^verbatim>\<open>std::istringstream\<close> with
  \<^verbatim>\<open>operator>>\<close>. The extraction skips leading white space, reads an optional sign and
  then decimal digits up to the first other character, and sets the stream's fail bit
  when there is no digit or when the number does not fit a \<^verbatim>\<open>long\<close> (64 bits here).
  What follows the digits stays in the stream unread.
\<close>

definition isspace :: "char \<Rightarrow> bool" where
  "isspace c \<longleftrightarrow> (of_char c :: nat) \<in> {9, 10, 11, 12, 13, 32}"

definition isdigit :: "char \<Rightarrow> bool" where
  "isdigit c \<longleftrightarrow> (48::nat) \<le> of_char c \<and> (of_char c :: nat) \<le> 57"

fun decimal_value :: "nat \<Rightarrow> string \<Rightarrow> nat" where
  "decimal_value acc [] = acc"
| "decimal_value acc (c # cs) = decimal_value (10 * acc + (of_char c - 48)) cs"

definition LONG_MAX :: int where
  "LONG_MAX = 2 ^ 63 - 1"

definition LONG_MIN :: int where
  "LONG_MIN = - (2 ^ 63)"

fun read_sign :: "string \<Rightarrow> bool \<times> string" where
  "read_sign [] = (False, [])"
| "read_sign (c # cs) =
     (if c = CHR ''-'' then (True, cs)
      else if c = CHR ''+'' then (False, cs)
      else (False, c # cs))"

text \<open>The extraction: \<open>None\<close> is the fail bit.\<close>

definition extract_long :: "string \<Rightarrow> int option" where
  "extract_long s =
     (let (negative, rest) = read_sign (dropWhile isspace s);
          ds = takeWhile isdigit rest
      in if ds = [] then None
         else let v = (if negative then - int (decimal_value 0 ds)
                       else int (decimal_value 0 ds))
              in if v < LONG_MIN \<or> LONG_MAX < v then None else Some v)"

definition stot_long :: "string \<Rightarrow> native_exception + int" where
  "stot_long s =
     (case extract_long s of
        None \<Rightarrow> Inl (InvalidArgument (''Cannot convert string '' @ [CHR 0x27] @ s @ [CHR 0x27]))
      | Some v \<Rightarrow> Inr v)"

text \<open>
  The result is a \<^verbatim>\<open>size_t\<close>; the \<^verbatim>\<open>long\<close> returned is not negative, so the
  conversion keeps its value.
\<close>

definition RJSValidatedPositiveIndex :: "string \<Rightarrow> native_exception + nat" where
  "RJSValidatedPositiveIndex indexStr =
     (case stot_long indexStr of
        Inl e \<Rightarrow> Inl e
      | Inr index \<Rightarrow>
          if index < 0
          then Inl (OutOfRange (''Index '' @ indexStr @ '' cannot be less than zero.''))
          else Inr (nat index))"

section \<open>Invocation adapters\<close>

text \<open>
  The native logic behind an adapter is a parameter. It runs on the native state \<open>'s\<close>,
  returns or throws, and leaves a new state either way. The exception slot \<^verbatim>\<open>*ex\<close> is
  passed in and its final content passed out. The property name is the string
  \<^verbatim>\<open>RJSStringForJSString(property)\<close>.
\<close>

definition WRAP_EXCEPTION ::
  "JSContext \<Rightarrow> ('s \<Rightarrow> (native_exception + unit) \<times> 's) \<Rightarrow> JSValueRef \<Rightarrow> 's \<Rightarrow> JSValueRef \<times> 's" where
  "WRAP_EXCEPTION ctx METHOD EXCEPTION st =
     (case METHOD st of
        (Inr u, st') \<Rightarrow> (EXCEPTION, st')
      | (Inl e, st') \<Rightarrow> (RJSSetException ctx e, st'))"

text \<open>The result is (returned \<^verbatim>\<open>bool\<close>, exception slot, native state).\<close>

definition WRAP_PROPERTY_SETTER ::
  "JSContext \<Rightarrow> (jsvalue \<Rightarrow> 's \<Rightarrow> (native_exception + unit) \<times> 's) \<Rightarrow>
     string \<Rightarrow> jsvalue \<Rightarrow> JSValueRef \<Rightarrow> 's \<Rightarrow> bool \<times> JSValueRef \<times> 's" where
  "WRAP_PROPERTY_SETTER ctx METHOD property v ex st =
     (case WRAP_EXCEPTION ctx (METHOD v) ex st of (ex', st') \<Rightarrow> (True, ex', st'))"

text \<open>
  The three \<^verbatim>\<open>catch\<close> clauses of the indexed getter, in their order: the result is
  (returned value, exception slot).
\<close>

fun indexed_getter_catch ::
  "JSContext \<Rightarrow> native_exception \<Rightarrow> JSValueRef \<Rightarrow> JSValueRef \<times> JSValueRef" where
  "indexed_getter_catch ctx (OutOfRange m) ex = (Some JSUndefined, ex)"
| "indexed_getter_catch ctx (InvalidArgument m) ex = (None, ex)"
| "indexed_getter_catch ctx e ex = (None, RJSSetException ctx e)"

definition WRAP_INDEXED_GETTER ::
  "JSContext \<Rightarrow> (nat \<Rightarrow> 's \<Rightarrow> (native_exception + JSValueRef) \<times> 's) \<Rightarrow>
     string \<Rightarrow> JSValueRef \<Rightarrow> 's \<Rightarrow> JSValueRef \<times> JSValueRef \<times> 's" where
  "WRAP_INDEXED_GETTER ctx METHOD property ex st =
     (case RJSValidatedPositiveIndex property of
        Inl e \<Rightarrow> (case indexed_getter_catch ctx e ex of (r, ex') \<Rightarrow> (r, ex', st))
      | Inr index \<Rightarrow>
          (case METHOD index st of
             (Inr returnValue, st') \<Rightarrow> (returnValue, ex, st')
           | (Inl e, st') \<Rightarrow>
               (case indexed_getter_catch ctx e ex of (r, ex') \<Rightarrow> (r, ex', st'))))"

text \<open>The \<^verbatim>\<open>catch\<close> clauses of the indexed setter: the new exception slot.\<close>

fun indexed_setter_catch :: "JSContext \<Rightarrow> native_exception \<Rightarrow> JSValueRef" where
  "indexed_setter_catch ctx (OutOfRange m) = RJSSetException ctx (OutOfRange m)"
| "indexed_setter_catch ctx (InvalidArgument m) = Some (RJSMakeError_string ctx ''Invalid index'')"
| "indexed_setter_catch ctx e = RJSSetException ctx e"

definition WRAP_INDEXED_SETTER ::
  "JSContext \<Rightarrow> (nat \<Rightarrow> jsvalue \<Rightarrow> 's \<Rightarrow> (native_exception + unit) \<times> 's) \<Rightarrow>
     string \<Rightarrow> jsvalue \<Rightarrow> JSValueRef \<Rightarrow> 's \<Rightarrow> bool \<times> JSValueRef \<times> 's" where
  "WRAP_INDEXED_SETTER ctx METHOD property v ex st =
     (case RJSValidatedPositiveIndex property of
        Inl e \<Rightarrow> (False, indexed_setter_catch ctx e, st)
      | Inr index \<Rightarrow>
          (case METHOD index v st of
             (Inr u, st') \<Rightarrow> (True, ex, st')
           | (Inl e, st') \<Rightarrow> (False, indexed_setter_catch ctx e, st')))"

section \<open>Finalization\<close>

text \<open>
  The store the finalizer works on: the private slot of each wrapper object (a native
  pointer, \<open>None\<close> for \<^verbatim>\<open>NULL\<close>) and the set of native handles that are allocated.
  Objects and handles are named by numbers.
\<close>

record native_store =
  private_slot :: "nat \<Rightarrow> nat option"
  live :: "nat set"

definition JSObjectGetPrivate :: "native_store \<Rightarrow> nat \<Rightarrow> nat option" where
  "JSObjectGetPrivate st object = private_slot st object"

definition JSObjectSetPrivate :: "nat \<Rightarrow> nat option \<Rightarrow> native_store \<Rightarrow> native_store" where
  "JSObjectSetPrivate object p st = st\<lparr>private_slot := (private_slot st)(object := p)\<rparr>"

text \<open>
  The \<^verbatim>\<open>delete\<close> expression: on a null pointer it does nothing; on an allocated handle
  it frees it; on a handle that is not allocated (freed before) the behaviour is
  undefined, which is the result \<open>None\<close>.
\<close>

definition delete_handle :: "nat option \<Rightarrow> native_store \<Rightarrow> native_store option" where
  "delete_handle p st =
     (case p of
        None \<Rightarrow> Some st
      | Some a \<Rightarrow> if a \<in> live st then Some (st\<lparr>live := live st - {a}\<rparr>) else None)"

definition RJSFinalize :: "nat \<Rightarrow> native_store \<Rightarrow> native_store option" where
  "RJSFinalize object st =
     (case delete_handle (JSObjectGetPrivate st object) st of
        None \<Rightarrow> None
      | Some st' \<Rightarrow> Some (JSObjectSetPrivate object None st'))"

section \<open>Schema-aware marshalling\<close>

text \<open>
  Of \<^verbatim>\<open>realm::Property\<close> and \<^verbatim>\<open>realm::ObjectSchema\<close> (declared in headers outside this
  file) the marshaller reads the property's name and the ordered property list.
\<close>

record Property =
  name :: string

record ObjectSchema =
  properties :: "Property list"

text \<open>The decimal numeral of an index, as the name of an indexed property.\<close>

fun string_of_nat :: "nat \<Rightarrow> string" where
  "string_of_nat n =
     (if n < 10 then [char_of (48 + n)]
      else string_of_nat (n div 10) @ [char_of (48 + n mod 10)])"

declare string_of_nat.simps [simp del]

text \<open>
  Property reads, \<open>Inl\<close> when the read raises a script exception. An array has its
  \<^verbatim>\<open>length\<close> and its elements; a missing property reads as \<^verbatim>\<open>undefined\<close>. Inherited
  properties are left out.
\<close>

fun JSObjectGetProperty :: "jsobject \<Rightarrow> string \<Rightarrow> jsvalue + jsvalue" where
  "JSObjectGetProperty (JSArray xs) p =
     (if p = ''length'' then Inr (JSNumber (Finite (of_nat (length xs))))
      else case map_of (zip (map string_of_nat [0..<length xs]) xs) p of
             None \<Rightarrow> Inr JSUndefined
           | Some v \<Rightarrow> Inr v)"
| "JSObjectGetProperty (JSPlain kvs) p =
     (case map_of kvs p of None \<Rightarrow> Inr JSUndefined | Some v \<Rightarrow> Inr v)"
| "JSObjectGetProperty (JSError m raw) p =
     (if p = ''message'' then Inr (JSString m) else Inr JSUndefined)"
| "JSObjectGetProperty (JSCustom getter) p = getter p"

fun JSObjectGetPropertyAtIndex :: "jsobject \<Rightarrow> nat \<Rightarrow> jsvalue + jsvalue" where
  "JSObjectGetPropertyAtIndex (JSArray xs) i =
     (if i < length xs then Inr (xs ! i) else Inr JSUndefined)"
| "JSObjectGetPropertyAtIndex ob i = JSObjectGetProperty ob (string_of_nat i)"

text \<open>
  \<^verbatim>\<open>JSObjectSetProperty\<close> on the plain object that \<^verbatim>\<open>JSObjectMake(ctx, NULL, NULL)\<close>
  made: an own property is replaced where it stands, a new one is added last, and no
  script exception is raised.
\<close>

fun set_own :: "string \<Rightarrow> jsvalue \<Rightarrow> (string \<times> jsvalue) list \<Rightarrow> (string \<times> jsvalue) list" where
  "set_own k v [] = [(k, v)]"
| "set_own k v ((k', v') # kvs) =
     (if k' = k then (k, v) # kvs else (k', v') # set_own k v kvs)"

definition JSObjectSetProperty ::
  "(string \<times> jsvalue) list \<Rightarrow> string \<Rightarrow> jsvalue \<Rightarrow> jsvalue + (string \<times> jsvalue) list" where
  "JSObjectSetProperty dict propertyName v = Inr (set_own propertyName v dict)"

text \<open>
  What a native function does: it returns, it throws, or (a \<^verbatim>\<open>double\<close> converted to
  \<^verbatim>\<open>size_t\<close> that the type cannot hold) its behaviour is undefined.
\<close>

datatype 'a outcome = Returns 'a | Throws native_exception | Undefined

definition SIZE_MAX :: nat where
  "SIZE_MAX = 2 ^ 64 - 1"

text \<open>
  The conversion of a \<^verbatim>\<open>double\<close> to \<^verbatim>\<open>size_t\<close> truncates towards zero; it is defined
  when the truncated value is a \<^verbatim>\<open>size_t\<close>.
\<close>

fun double_to_size_t :: "double \<Rightarrow> nat option" where
  "double_to_size_t (Finite r) =
     (if - 1 < r \<and> r < of_nat SIZE_MAX + 1 then Some (nat \<lfloor>r\<rfloor>) else None)"
| "double_to_size_t d = None"

definition RJSValidatedListLength :: "JSContext \<Rightarrow> jsobject \<Rightarrow> nat outcome" where
  "RJSValidatedListLength ctx object =
     (case JSObjectGetProperty object ''length'' of
        Inl exception \<Rightarrow> Throws (RJSException_ctor ctx exception)
      | Inr lengthValue \<Rightarrow>
          if \<not> JSValueIsNumber lengthValue
          then Throws (RuntimeError (''Missing property '' @ [CHR 0x27] @ ''length'' @ [CHR 0x27]))
          else (case RJSValidatedValueToNumber ctx lengthValue of
                  Inl e \<Rightarrow> Throws e
                | Inr number \<Rightarrow>
                    (case double_to_size_t number of
                       None \<Rightarrow> Undefined
                     | Some n \<Rightarrow> Returns n)))"

text \<open>
  The loop of \<^verbatim>\<open>RJSDictForPropertyArray\<close>, from index \<open>i\<close> on, over the properties still
  to copy. It returns the exception thrown, if any, and the dictionary as it stands when
  the loop is left. (The index is an \<^verbatim>\<open>unsigned int\<close>; a schema has far fewer than
  \<open>2^32\<close> properties.)
\<close>

fun copy_properties ::
  "JSContext \<Rightarrow> jsobject \<Rightarrow> Property list \<Rightarrow> nat \<Rightarrow> (string \<times> jsvalue) list \<Rightarrow>
     native_exception option \<times> (string \<times> jsvalue) list" where
  "copy_properties ctx array [] i dict = (None, dict)"
| "copy_properties ctx array (p # ps) i dict =
     (case JSObjectGetPropertyAtIndex array i of
        Inl exception \<Rightarrow> (Some (RJSException_ctor ctx exception), dict)
      | Inr v \<Rightarrow>
          (case JSObjectSetProperty dict (name p) v of
             Inl exception \<Rightarrow> (Some (RJSException_ctor ctx exception), dict)
           | Inr dict' \<Rightarrow> copy_properties ctx array ps (Suc i) dict'))"

text \<open>
  The result is the outcome together with the dictionary object that \<^verbatim>\<open>JSObjectMake\<close>
  created, in its last state: \<open>None\<close> when the function left before creating one.
\<close>

definition RJSDictForPropertyArray ::
  "JSContext \<Rightarrow> ObjectSchema \<Rightarrow> jsobject \<Rightarrow> jsobject outcome \<times> (string \<times> jsvalue) list option" where
  "RJSDictForPropertyArray ctx object_schema array =
     (case RJSValidatedListLength ctx array of
        Throws e \<Rightarrow> (Throws e, None)
      | Undefined \<Rightarrow> (Undefined, None)
      | Returns n \<Rightarrow>
          if length (properties object_schema) \<noteq> n
          then (Throws (RuntimeError ''Array must contain values for all object properties''), None)
          else (case copy_properties ctx array (properties object_schema) 0 [] of
                  (Some e, dict) \<Rightarrow> (Throws e, Some dict)
                | (None, dict) \<Rightarrow> (Returns (JSPlain dict), Some dict)))"

section \<open>Concrete inputs\<close>

text \<open>
  A small engine for the examples: a string converts to not-a-number and renders as
  itself, an object cannot be converted and the conversion raises a script exception.
\<close>

definition example_ctx :: JSContext where
  "example_ctx =
     \<lparr>ToNumber_other =
        (\<lambda>v. case v of JSString s \<Rightarrow> Inr NaN | _ \<Rightarrow> Inl (JSString ''TypeError'')),
      JSValueToStringCopy = (\<lambda>v. case v of JSString s \<Rightarrow> s | _ \<Rightarrow> [])\<rparr>"

text \<open>An indexed getter and setter over a native state that counts the calls.\<close>

definition example_getter :: "nat \<Rightarrow> nat \<Rightarrow> (native_exception + JSValueRef) \<times> nat" where
  "example_getter index st = (Inr (Some (JSNumber (Finite (of_nat index)))), Suc st)"

definition example_setter :: "nat \<Rightarrow> jsvalue \<Rightarrow> nat \<Rightarrow> (native_exception + unit) \<times> nat" where
  "example_setter index v st = (Inr (), Suc st)"

text \<open>A property setter that throws.\<close>

definition example_readonly :: "jsvalue \<Rightarrow> nat \<Rightarrow> (native_exception + unit) \<times> nat" where
  "example_readonly v st = (Inl (RuntimeError ''read-only''), st)"

definition example_schema :: ObjectSchema where
  "example_schema = \<lparr>properties = [\<lparr>name = ''id''\<rparr>, \<lparr>name = ''title''\<rparr>]\<rparr>"

text \<open>A schema in which the first and the last property have the same name.\<close>

definition example_repeated_schema :: ObjectSchema where
  "example_repeated_schema =
     \<lparr>properties = [\<lparr>name = ''a''\<rparr>, \<lparr>name = ''b''\<rparr>, \<lparr>name = ''a''\<rparr>]\<rparr>"

text \<open>
  An array-like object of length 2 whose element 0 reads as 5 and whose every other
  property read raises the script exception \<open>boom\<close>.
\<close>

definition example_raising_array :: jsobject where
  "example_raising_array =
     JSCustom (\<lambda>p. if p = ''length'' then Inr (JSNumber (Finite 2))
                  else if p = ''0'' then Inr (JSNumber (Finite 5))
                  else Inl (JSString ''boom''))"

text \<open>One wrapper object, number 1, holding the allocated handle 7.\<close>

definition example_store :: native_store where
  "example_store = \<lparr>private_slot = (\<lambda>ob. if ob = 1 then Some 7 else None), live = {7}\<rparr>"

section \<open>Facts about the index parser\<close>

lemma extract_long_minus_one: "extract_long ''-1'' = Some (- 1)"
  by (simp add: extract_long_def isspace_def isdigit_def LONG_MIN_def LONG_MAX_def)

lemma extract_long_abc: "extract_long ''abc'' = None"
  by (simp add: extract_long_def isspace_def isdigit_def)

lemma extract_long_seven: "extract_long ''7'' = Some 7"
  by (simp add: extract_long_def isspace_def isdigit_def LONG_MIN_def LONG_MAX_def)

lemma index_minus_one:
  "RJSValidatedPositiveIndex ''-1'' = Inl (OutOfRange ''Index -1 cannot be less than zero.'')"
  by (simp add: RJSValidatedPositiveIndex_def stot_long_def extract_long_minus_one)

lemma index_abc:
  "RJSValidatedPositiveIndex ''abc'' =
     Inl (InvalidArgument (''Cannot convert string '' @ [CHR 0x27] @ ''abc'' @ [CHR 0x27]))"
  by (simp add: RJSValidatedPositiveIndex_def stot_long_def extract_long_abc)

lemma stot_long_throws_invalid_argument:
  "stot_long s = Inl e \<Longrightarrow> \<exists>m. e = InvalidArgument m"
  by (auto simp: stot_long_def split: option.splits)

section \<open>Facts about the marshaller\<close>

lemma double_to_size_t_of_nat:
  assumes "n < 2 ^ 32"
  shows "double_to_size_t (Finite (of_nat n)) = Some n"
proof -
  have "n < SIZE_MAX + 1" using assms by (simp add: SIZE_MAX_def)
  then have "(of_nat n :: rat) < of_nat (SIZE_MAX + 1)"
    by (simp only: of_nat_less_iff)
  then have up: "(of_nat n :: rat) < of_nat SIZE_MAX + 1" by simp
  have "(0::rat) \<le> of_nat n" by simp
  then have lo: "- 1 < (of_nat n :: rat)" by linarith
  show ?thesis using lo up by simp
qed

lemma list_length_array:
  "length xs < 2 ^ 32 \<Longrightarrow> RJSValidatedListLength ctx (JSArray xs) = Returns (length xs)"
  by (simp add: RJSValidatedListLength_def RJSValidatedValueToNumber_def double_to_size_t_of_nat
      del: double_to_size_t.simps)

lemma string_of_nat_zero: "string_of_nat 0 = ''0''"
  by code_simp

lemma string_of_nat_one: "string_of_nat (Suc 0) = ''1''"
  by code_simp

lemma copy_properties_reads:
  "length xs = length ps \<Longrightarrow>
   \<forall>j < length ps. JSObjectGetPropertyAtIndex array (i + j) = Inr (xs ! j) \<Longrightarrow>
   copy_properties ctx array ps i d =
     (None, fold (\<lambda>kv. set_own (fst kv) (snd kv)) (zip (map name ps) xs) d)"
proof (induction ps arbitrary: i d xs)
  case Nil
  then show ?case by simp
next
  case (Cons p ps)
  from Cons.prems(1) obtain x xs' where xs: "xs = x # xs'" and l: "length xs' = length ps"
    by (cases xs) auto
  have hd: "JSObjectGetPropertyAtIndex array i = Inr x"
    using Cons.prems(2)[rule_format, of 0] xs by simp
  have tl: "\<forall>j < length ps. JSObjectGetPropertyAtIndex array (Suc i + j) = Inr (xs' ! j)"
  proof (intro allI impI)
    fix j assume "j < length ps"
    with Cons.prems(2)[rule_format, of "Suc j"] xs
    show "JSObjectGetPropertyAtIndex array (Suc i + j) = Inr (xs' ! j)" by simp
  qed
  show ?case
    using Cons.IH[OF l tl] by (simp add: xs hd JSObjectSetProperty_def)
qed

lemma copy_properties_raises:
  "n < length ps \<Longrightarrow> n \<le> length xs \<Longrightarrow>
   \<forall>j < n. JSObjectGetPropertyAtIndex array (i + j) = Inr (xs ! j) \<Longrightarrow>
   JSObjectGetPropertyAtIndex array (i + n) = Inl exc \<Longrightarrow>
   copy_properties ctx array ps i d =
     (Some (RJSException_ctor ctx exc),
      fold (\<lambda>kv. set_own (fst kv) (snd kv)) (zip (map name (take n ps)) (take n xs)) d)"
proof (induction ps arbitrary: i d xs n)
  case Nil
  then show ?case by simp
next
  case (Cons p ps)
  show ?case
  proof (cases n)
    case 0
    with Cons.prems(4) show ?thesis by simp
  next
    case (Suc n')
    from Cons.prems(2) Suc obtain x xs' where xs: "xs = x # xs'" and l: "n' \<le> length xs'"
      by (cases xs) auto
    have hd: "JSObjectGetPropertyAtIndex array i = Inr x"
      using Cons.prems(3)[rule_format, of 0] xs Suc by simp
    have tl: "\<forall>j < n'. JSObjectGetPropertyAtIndex array (Suc i + j) = Inr (xs' ! j)"
    proof (intro allI impI)
      fix j assume "j < n'"
      with Cons.prems(3)[rule_format, of "Suc j"] xs Suc
      show "JSObjectGetPropertyAtIndex array (Suc i + j) = Inr (xs' ! j)" by simp
    qed
    have n': "n' < length ps" using Cons.prems(1) Suc by simp
    have ex: "JSObjectGetPropertyAtIndex array (Suc i + n') = Inl exc"
      using Cons.prems(4) Suc by simp
    show ?thesis
      using Cons.IH[OF n' l tl ex] by (simp add: xs hd Suc JSObjectSetProperty_def)
  qed
qed

lemma keys_set_own: "fst ` set (set_own k v d) = insert k (fst ` set d)"
  by (induction k v d rule: set_own.induct) (auto split: if_splits)

lemma keys_fold_set_own:
  "fst ` set (fold (\<lambda>kv. set_own (fst kv) (snd kv)) kvs d) = fst ` set kvs \<union> fst ` set d"
  by (induction kvs arbitrary: d) (auto simp: keys_set_own)

lemma map_of_set_own: "map_of (set_own k v d) = (map_of d)(k \<mapsto> v)"
  by (induction d) (auto simp: fun_eq_iff)

lemma map_of_fold_set_own:
  "map_of (fold (\<lambda>kv. set_own (fst kv) (snd kv)) kvs d) = map_of d ++ map_of (rev kvs)"
proof (induction kvs arbitrary: d)
  case Nil
  then show ?case by simp
next
  case (Cons kv kvs)
  have "map_of d ++ map_of (rev (kv # kvs)) = (map_of d ++ map_of [kv]) ++ map_of (rev kvs)"
    by (simp only: rev.simps map_of_append map_add_assoc)
  also have "map_of d ++ map_of [kv] = (map_of d)(fst kv \<mapsto> snd kv)"
    by (cases kv) simp
  finally show ?case using Cons.IH[of "set_own (fst kv) (snd kv) d"]
    by (simp add: map_of_set_own)
qed

lemma map_of_fold_other:
  "k \<notin> fst ` set kvs \<Longrightarrow>
   map_of (fold (\<lambda>kv. set_own (fst kv) (snd kv)) kvs d) k = map_of d k"
  by (induction kvs arbitrary: d) (auto simp: map_of_set_own)

lemma map_of_fold_last:
  "i < length kvs \<Longrightarrow> \<forall>j. i < j \<and> j < length kvs \<longrightarrow> fst (kvs ! j) \<noteq> fst (kvs ! i) \<Longrightarrow>
   map_of (fold (\<lambda>kv. set_own (fst kv) (snd kv)) kvs d) (fst (kvs ! i)) = Some (snd (kvs ! i))"
proof (induction kvs arbitrary: i d)
  case Nil
  then show ?case by simp
next
  case (Cons kv kvs)
  show ?case
  proof (cases i)
    case 0
    have "fst kv \<notin> fst ` set kvs"
    proof
      assume "fst kv \<in> fst ` set kvs"
      then obtain j where "j < length kvs" "fst (kvs ! j) = fst kv"
        by (auto simp: in_set_conv_nth)
      with Cons.prems(2)[rule_format, of "Suc j"] 0 show False by simp
    qed
    then show ?thesis using 0 by (simp add: map_of_fold_other map_of_set_own)
  next
    case (Suc i')
    have "i' < length kvs" using Cons.prems(1) Suc by simp
    moreover have "\<forall>j. i' < j \<and> j < length kvs \<longrightarrow> fst (kvs ! j) \<noteq> fst (kvs ! i')"
    proof (intro allI impI)
      fix j assume "i' < j \<and> j < length kvs"
      with Cons.prems(2)[rule_format, of "Suc j"] Suc
      show "fst (kvs ! j) \<noteq> fst (kvs ! i')" by simp
    qed
    ultimately show ?thesis using Cons.IH[of i'] Suc by simp
  qed
qed

lemma set_own_fresh: "k \<notin> fst ` set d \<Longrightarrow> set_own k v d = d @ [(k, v)]"
  by (induction d) auto

lemma fold_set_own_distinct:
  "distinct (map fst kvs) \<Longrightarrow> fst ` set kvs \<inter> fst ` set d = {} \<Longrightarrow>
   fold (\<lambda>kv. set_own (fst kv) (snd kv)) kvs d = d @ kvs"
proof (induction kvs arbitrary: d)
  case Nil
  then show ?case by simp
next
  case (Cons kv kvs)
  have fresh: "fst kv \<notin> fst ` set d" using Cons.prems(2) by auto
  have "fst ` set kvs \<inter> fst ` set (d @ [kv]) = {}"
    using Cons.prems by auto
  with Cons.IH[of "d @ [kv]"] Cons.prems(1) fresh show ?case
    by (cases kv) (simp add: set_own_fresh)
qed

section \<open>Indexed property access\<close>

text \<open>
  Claim C1, as the code has it. The two indexed adapters treat the three outcomes of the
  index parser differently. A name that parses to a non-negative integer \<open>n\<close> runs the
  native handler with \<open>n\<close>, in the getter and in the setter. A name that does not parse
  makes the getter return \<^verbatim>\<open>NULL\<close> with the exception slot untouched, and makes the
  setter return \<^verbatim>\<open>false\<close> with the script error "Invalid index" in the exception slot.
  A name that parses to a negative number makes the getter return \<^verbatim>\<open>undefined\<close> with the
  exception slot untouched, and makes the setter return \<^verbatim>\<open>false\<close> with the out-of-range
  error in the exception slot. The handler does not run in the last two cases: the native
  state is unchanged.
\<close>

theorem C1_indexed_dispatch_policy:
  "(stot_long p = Inr n \<and> 0 \<le> n \<and> G (nat n) st = (Inr rv, st') \<longrightarrow>
      WRAP_INDEXED_GETTER ctx G p ex st = (rv, ex, st'))
 \<and> (stot_long p = Inr n \<and> 0 \<le> n \<and> S (nat n) v st = (Inr (), st') \<longrightarrow>
      WRAP_INDEXED_SETTER ctx S p v ex st = (True, ex, st'))
 \<and> (stot_long p = Inl e \<longrightarrow>
      WRAP_INDEXED_GETTER ctx G p ex st = (None, ex, st)
    \<and> WRAP_INDEXED_SETTER ctx S p v ex st =
        (False, Some (RJSMakeError_string ctx ''Invalid index''), st))
 \<and> (stot_long p = Inr n \<and> n < 0 \<longrightarrow>
      WRAP_INDEXED_GETTER ctx G p ex st = (Some JSUndefined, ex, st)
    \<and> WRAP_INDEXED_SETTER ctx S p v ex st =
        (False, RJSSetException ctx (OutOfRange (''Index '' @ p @ '' cannot be less than zero.'')), st))"
  by (auto simp: WRAP_INDEXED_GETTER_def WRAP_INDEXED_SETTER_def RJSValidatedPositiveIndex_def
      dest!: stot_long_throws_invalid_argument)

theorem C1_indexed_dispatch_policy_witness:
  "WRAP_INDEXED_GETTER example_ctx example_getter ''7'' None 0 =
     (Some (JSNumber (Finite 7)), None, 1)
 \<and> WRAP_INDEXED_SETTER example_ctx example_setter ''7'' JSNull None 0 = (True, None, 1)
 \<and> WRAP_INDEXED_GETTER example_ctx example_getter ''abc'' None 0 = (None, None, 0)
 \<and> WRAP_INDEXED_SETTER example_ctx example_setter ''abc'' JSNull None 0 =
     (False, Some (RJSMakeError_string example_ctx ''Invalid index''), 0)
 \<and> WRAP_INDEXED_GETTER example_ctx example_getter ''-1'' None 0 = (Some JSUndefined, None, 0)
 \<and> WRAP_INDEXED_SETTER example_ctx example_setter ''-1'' JSNull None 0 =
     (False, RJSSetException example_ctx (OutOfRange ''Index -1 cannot be less than zero.''), 0)"
proof -
  have p7: "stot_long ''7'' = Inr 7" by (simp add: stot_long_def extract_long_seven)
  have g7: "example_getter (nat 7) 0 = (Inr (Some (JSNumber (Finite 7))), 1)"
    by (simp add: example_getter_def)
  have s7: "example_setter (nat 7) JSNull 0 = (Inr (), 1)"
    by (simp add: example_setter_def)
  have pabc: "stot_long ''abc'' =
      Inl (InvalidArgument (''Cannot convert string '' @ [CHR 0x27] @ ''abc'' @ [CHR 0x27]))"
    by (simp add: stot_long_def extract_long_abc)
  have pneg: "stot_long ''-1'' = Inr (- 1)" by (simp add: stot_long_def extract_long_minus_one)
  note a = C1_indexed_dispatch_policy
      [where p = "''7''" and n = 7 and G = example_getter and S = example_setter and st = 0
         and rv = "Some (JSNumber (Finite 7))" and st' = 1 and ctx = example_ctx
         and ex = None and v = JSNull]
  note b = C1_indexed_dispatch_policy
      [where p = "''abc''" and G = example_getter and S = example_setter and st = 0
         and ctx = example_ctx and ex = None and v = JSNull
         and e = "InvalidArgument (''Cannot convert string '' @ [CHR 0x27] @ ''abc'' @ [CHR 0x27])"]
  note c = C1_indexed_dispatch_policy
      [where p = "''-1''" and n = "- 1" and G = example_getter and S = example_setter
         and st = 0 and ctx = example_ctx and ex = None and v = JSNull]
  from a p7 g7 s7 have
    "WRAP_INDEXED_GETTER example_ctx example_getter ''7'' None 0 =
       (Some (JSNumber (Finite 7)), None, 1)"
    "WRAP_INDEXED_SETTER example_ctx example_setter ''7'' JSNull None 0 = (True, None, 1)"
    by simp_all
  moreover from b pabc have
    "WRAP_INDEXED_GETTER example_ctx example_getter ''abc'' None 0 = (None, None, 0)"
    "WRAP_INDEXED_SETTER example_ctx example_setter ''abc'' JSNull None 0 =
       (False, Some (RJSMakeError_string example_ctx ''Invalid index''), 0)"
    by simp_all
  moreover from c pneg have
    "WRAP_INDEXED_GETTER example_ctx example_getter ''-1'' None 0 = (Some JSUndefined, None, 0)"
    "WRAP_INDEXED_SETTER example_ctx example_setter ''-1'' JSNull None 0 =
       (False, RJSSetException example_ctx (OutOfRange ''Index -1 cannot be less than zero.''), 0)"
    by simp_all
  ultimately show ?thesis by simp
qed

text \<open>
  Claim C1 as it is written says that a name parsing to a negative number raises an
  out-of-range error on every indexed access. The getter does not: at the name \<open>-1\<close>,
  which parses to \<open>-1\<close>, it returns \<^verbatim>\<open>undefined\<close> and leaves the exception slot empty.
\<close>

theorem C1_getter_negative_counterexample:
  "stot_long ''-1'' = Inr (- 1)
 \<and> WRAP_INDEXED_GETTER example_ctx example_getter ''-1'' None 0 = (Some JSUndefined, None, 0)"
  by (simp add: WRAP_INDEXED_GETTER_def index_minus_one stot_long_def extract_long_minus_one)

text \<open>
  Claim C2, as the code has it. The indexed setter invoked with the property name \<open>-1\<close>
  returns \<^verbatim>\<open>false\<close> with the exception slot set to the script error made from the
  out-of-range exception "Index -1 cannot be less than zero."; invoked with \<open>abc\<close> it
  returns \<^verbatim>\<open>false\<close> with the exception slot set to the script error "Invalid index".
  The native setter runs in neither case.
\<close>

theorem C2_indexed_setter_scenarios:
  "WRAP_INDEXED_SETTER ctx S ''-1'' v ex st =
     (False, RJSSetException ctx (OutOfRange ''Index -1 cannot be less than zero.''), st)
 \<and> WRAP_INDEXED_SETTER ctx S ''abc'' v ex st =
     (False, Some (RJSMakeError_string ctx ''Invalid index''), st)"
  by (simp add: WRAP_INDEXED_SETTER_def index_minus_one index_abc)

text \<open>
  Claim C2 as it is written says that the setter with the name \<open>abc\<close> raises nothing.
  It raises: the exception slot, empty before the call, holds an error object after it.
\<close>

theorem C2_setter_unparsable_counterexample:
  "WRAP_INDEXED_SETTER example_ctx example_setter ''abc'' JSNull None 0 =
     (False, Some (RJSMakeError_string example_ctx ''Invalid index''), 0)"
  by (simp add: WRAP_INDEXED_SETTER_def index_abc)

section \<open>Marshalling an array against a schema\<close>

text \<open>
  Claim C3. For a schema of \<open>N\<close> properties and a script array whose length is not \<open>N\<close>,
  \<^verbatim>\<open>RJSDictForPropertyArray\<close> throws the runtime error "Array must contain values for all
  object properties" and has created no dictionary object. (A script array has fewer
  than \<open>2^32\<close> elements.)
\<close>

theorem C3_length_mismatch_throws:
  "length xs < 2 ^ 32 \<Longrightarrow> length xs \<noteq> length (properties object_schema) \<Longrightarrow>
   RJSDictForPropertyArray ctx object_schema (JSArray xs) =
     (Throws (RuntimeError ''Array must contain values for all object properties''), None)"
  by (auto simp add: RJSDictForPropertyArray_def list_length_array)

theorem C3_length_mismatch_throws_witness:
  "RJSDictForPropertyArray example_ctx example_schema (JSArray [JSNull]) =
     (Throws (RuntimeError ''Array must contain values for all object properties''), None)"
proof -
  have small: "length [JSNull] < 2 ^ 32" by simp
  have differ: "length [JSNull] \<noteq> length (properties example_schema)"
    by (simp add: example_schema_def)
  show ?thesis by (rule C3_length_mismatch_throws [OF small differ])
qed

text \<open>
  Claim C4, as the code has it. A script array of fewer than \<open>2^32\<close> elements reads as
  its length and its elements. For a schema of \<open>N\<close> properties and an object whose length
  reads as \<open>N\<close> and whose element reads succeed, \<^verbatim>\<open>RJSDictForPropertyArray\<close> returns a
  dictionary whose keys are the schema's property names. At each name the dictionary
  holds, unchanged, the element of the last schema position with that name: at the name
  of position \<open>i\<close> it holds element \<open>i\<close> when no later property repeats the name. When
  the names of the schema are distinct the dictionary is the list of (name, element)
  pairs in schema order. When the read of element \<open>n\<close> raises a script exception, the
  function throws an \<^verbatim>\<open>RJSException\<close> wrapping it and returns nothing; the dictionary it
  leaves behind has the names of the first \<open>n\<close> properties.
\<close>

theorem C4_dictionary_of_array:
  "(length xs < 2 ^ 32 \<longrightarrow>
      RJSValidatedListLength ctx (JSArray xs) = Returns (length xs)
    \<and> (\<forall>i < length xs. JSObjectGetPropertyAtIndex (JSArray xs) i = Inr (xs ! i)))
 \<and> (RJSValidatedListLength ctx array = Returns (length (properties object_schema))
    \<and> length xs = length (properties object_schema)
    \<and> (\<forall>i < length xs. JSObjectGetPropertyAtIndex array i = Inr (xs ! i)) \<longrightarrow>
      (\<exists>dict.
          RJSDictForPropertyArray ctx object_schema array = (Returns (JSPlain dict), Some dict)
        \<and> fst ` set dict = name ` set (properties object_schema)
        \<and> map_of dict = map_of (rev (zip (map name (properties object_schema)) xs))
        \<and> (\<forall>i < length xs.
              (\<forall>j. i < j \<and> j < length xs \<longrightarrow>
                   name (properties object_schema ! j) \<noteq> name (properties object_schema ! i)) \<longrightarrow>
              map_of dict (name (properties object_schema ! i)) = Some (xs ! i))
        \<and> (distinct (map name (properties object_schema)) \<longrightarrow>
              dict = zip (map name (properties object_schema)) xs)))
 \<and> (RJSValidatedListLength ctx array = Returns (length (properties object_schema))
    \<and> n < length (properties object_schema) \<and> n \<le> length xs
    \<and> (\<forall>i < n. JSObjectGetPropertyAtIndex array i = Inr (xs ! i))
    \<and> JSObjectGetPropertyAtIndex array n = Inl exc \<longrightarrow>
      (\<exists>partial.
          RJSDictForPropertyArray ctx object_schema array =
            (Throws (RJSException_ctor ctx exc), Some partial)
        \<and> fst ` set partial = name ` set (take n (properties object_schema))))"
proof (intro conjI impI)
  assume "length xs < 2 ^ 32"
  then show "RJSValidatedListLength ctx (JSArray xs) = Returns (length xs)"
    by (rule list_length_array)
next
  show "\<forall>i < length xs. JSObjectGetPropertyAtIndex (JSArray xs) i = Inr (xs ! i)" by simp
next
  let ?ps = "properties object_schema"
  let ?kvs = "zip (map name ?ps) xs"
  let ?dict = "fold (\<lambda>kv. set_own (fst kv) (snd kv)) ?kvs []"
  assume a: "RJSValidatedListLength ctx array = Returns (length ?ps)
    \<and> length xs = length ?ps
    \<and> (\<forall>i < length xs. JSObjectGetPropertyAtIndex array i = Inr (xs ! i))"
  then have len: "RJSValidatedListLength ctx array = Returns (length ?ps)"
    and eq: "length xs = length ?ps"
    and reads: "\<forall>j < length ?ps. JSObjectGetPropertyAtIndex array (0 + j) = Inr (xs ! j)"
    by simp_all
  have cp: "copy_properties ctx array ?ps 0 [] = (None, ?dict)"
    by (rule copy_properties_reads[OF eq reads])
  have res: "RJSDictForPropertyArray ctx object_schema array =
      (Returns (JSPlain ?dict), Some ?dict)"
    by (simp add: RJSDictForPropertyArray_def len cp)
  have fsts: "map fst ?kvs = map name ?ps" using eq by simp
  have keys: "fst ` set ?dict = name ` set ?ps"
  proof -
    have "fst ` set ?dict = set (map fst ?kvs)" by (simp add: keys_fold_set_own)
    then show ?thesis by (simp only: fsts set_map)
  qed
  have look: "map_of ?dict = map_of (rev ?kvs)"
    by (simp add: map_of_fold_set_own)
  have vals: "\<forall>i < length xs.
          (\<forall>j. i < j \<and> j < length xs \<longrightarrow> name (?ps ! j) \<noteq> name (?ps ! i)) \<longrightarrow>
          map_of ?dict (name (?ps ! i)) = Some (xs ! i)"
  proof (intro allI impI)
    fix i assume i: "i < length xs"
      and last: "\<forall>j. i < j \<and> j < length xs \<longrightarrow> name (?ps ! j) \<noteq> name (?ps ! i)"
    have l: "length ?kvs = length xs" using eq by simp
    have nth: "\<And>j. j < length xs \<Longrightarrow> ?kvs ! j = (name (?ps ! j), xs ! j)"
      using eq by simp
    have "\<forall>j. i < j \<and> j < length ?kvs \<longrightarrow> fst (?kvs ! j) \<noteq> fst (?kvs ! i)"
      using last i by (simp add: nth l del: length_zip)
    from map_of_fold_last[of i ?kvs "[]", OF _ this] i l
    show "map_of ?dict (name (?ps ! i)) = Some (xs ! i)" by (simp add: nth del: length_zip)
  qed
  have dist: "distinct (map name ?ps) \<longrightarrow> ?dict = ?kvs"
    using fold_set_own_distinct[of ?kvs "[]"] by (simp only: fsts) simp
  from res keys look vals dist
  show "\<exists>dict.
          RJSDictForPropertyArray ctx object_schema array = (Returns (JSPlain dict), Some dict)
        \<and> fst ` set dict = name ` set ?ps
        \<and> map_of dict = map_of (rev ?kvs)
        \<and> (\<forall>i < length xs.
              (\<forall>j. i < j \<and> j < length xs \<longrightarrow> name (?ps ! j) \<noteq> name (?ps ! i)) \<longrightarrow>
              map_of dict (name (?ps ! i)) = Some (xs ! i))
        \<and> (distinct (map name ?ps) \<longrightarrow> dict = ?kvs)"
    by blast
next
  let ?ps = "properties object_schema"
  let ?kvs = "zip (map name (take n ?ps)) (take n xs)"
  let ?partial = "fold (\<lambda>kv. set_own (fst kv) (snd kv)) ?kvs []"
  assume a: "RJSValidatedListLength ctx array = Returns (length ?ps)
    \<and> n < length ?ps \<and> n \<le> length xs
    \<and> (\<forall>i < n. JSObjectGetPropertyAtIndex array i = Inr (xs ! i))
    \<and> JSObjectGetPropertyAtIndex array n = Inl exc"
  then have len: "RJSValidatedListLength ctx array = Returns (length ?ps)"
    and n: "n < length ?ps" and nx: "n \<le> length xs"
    and reads: "\<forall>j < n. JSObjectGetPropertyAtIndex array (0 + j) = Inr (xs ! j)"
    and raise: "JSObjectGetPropertyAtIndex array (0 + n) = Inl exc"
    by simp_all
  have cp: "copy_properties ctx array ?ps 0 [] = (Some (RJSException_ctor ctx exc), ?partial)"
    by (rule copy_properties_raises[OF n nx reads raise])
  have res: "RJSDictForPropertyArray ctx object_schema array =
      (Throws (RJSException_ctor ctx exc), Some ?partial)"
    by (simp add: RJSDictForPropertyArray_def len cp)
  have fsts: "map fst ?kvs = map name (take n ?ps)" using n nx by simp
  have "fst ` set ?partial = set (map fst ?kvs)" by (simp add: keys_fold_set_own)
  then have "fst ` set ?partial = name ` set (take n ?ps)"
    by (simp only: fsts set_map)
  with res show "\<exists>partial.
          RJSDictForPropertyArray ctx object_schema array =
            (Throws (RJSException_ctor ctx exc), Some partial)
        \<and> fst ` set partial = name ` set (take n ?ps)"
    by blast
qed

theorem C4_dictionary_of_array_witness:
  "RJSDictForPropertyArray example_ctx example_schema
      (JSArray [JSNumber (Finite 5), JSString ''Dune'']) =
    (Returns (JSPlain [(''id'', JSNumber (Finite 5)), (''title'', JSString ''Dune'')]),
     Some [(''id'', JSNumber (Finite 5)), (''title'', JSString ''Dune'')])
 \<and> (\<exists>partial.
      RJSDictForPropertyArray example_ctx example_schema example_raising_array =
        (Throws (RJSException_ctor example_ctx (JSString ''boom'')), Some partial)
    \<and> fst ` set partial = {''id''})"
proof -
  let ?xs = "[JSNumber (Finite 5), JSString ''Dune'']"
  have names: "map name (properties example_schema) = [''id'', ''title'']"
    by (simp add: example_schema_def)
  have two: "length (properties example_schema) = 2"
    by (simp add: example_schema_def)
  have small: "length ?xs < 2 ^ 32" by simp
  note data = C4_dictionary_of_array
      [where xs = ?xs and ctx = example_ctx and array = "JSArray ?xs"
         and object_schema = example_schema]
  from data [THEN conjunct1, rule_format, OF small] have
    len: "RJSValidatedListLength example_ctx (JSArray ?xs) = Returns (length ?xs)"
    and reads: "\<forall>i < length ?xs. JSObjectGetPropertyAtIndex (JSArray ?xs) i = Inr (?xs ! i)"
    by (rule conjunct1, rule conjunct2)
  have len': "RJSValidatedListLength example_ctx (JSArray ?xs) =
      Returns (length (properties example_schema))"
    using len by (simp only: two) simp
  have same: "length ?xs = length (properties example_schema)" by (simp add: two)
  from data [THEN conjunct2, THEN conjunct1, rule_format, OF conjI [OF len' conjI [OF same reads]]]
  obtain dict where
    res: "RJSDictForPropertyArray example_ctx example_schema (JSArray ?xs) =
            (Returns (JSPlain dict), Some dict)"
    and ordered: "distinct (map name (properties example_schema)) \<longrightarrow>
            dict = zip (map name (properties example_schema)) ?xs"
    by blast
  have "distinct (map name (properties example_schema))" by (simp add: names)
  with ordered have "dict = zip (map name (properties example_schema)) ?xs" by (rule mp)
  then have "dict = [(''id'', JSNumber (Finite 5)), (''title'', JSString ''Dune'')]"
    by (simp add: names)
  with res have first:
    "RJSDictForPropertyArray example_ctx example_schema (JSArray ?xs) =
      (Returns (JSPlain [(''id'', JSNumber (Finite 5)), (''title'', JSString ''Dune'')]),
       Some [(''id'', JSNumber (Finite 5)), (''title'', JSString ''Dune'')])"
    by simp
  have rlen: "RJSValidatedListLength example_ctx example_raising_array =
      Returns (length (properties example_schema))"
    by (simp add: RJSValidatedListLength_def RJSValidatedValueToNumber_def
        example_raising_array_def SIZE_MAX_def two)
  have r0: "\<forall>i < 1. JSObjectGetPropertyAtIndex example_raising_array i =
      Inr ([JSNumber (Finite 5)] ! i)"
    by (simp add: example_raising_array_def string_of_nat_zero)
  have r1: "JSObjectGetPropertyAtIndex example_raising_array 1 = Inl (JSString ''boom'')"
    by (simp add: example_raising_array_def string_of_nat_one)
  have n1: "1 < length (properties example_schema)" by (simp add: two)
  have n2: "1 \<le> length [JSNumber (Finite 5)]" by simp
  note raising = C4_dictionary_of_array
      [where array = example_raising_array and ctx = example_ctx
         and object_schema = example_schema and n = 1 and xs = "[JSNumber (Finite 5)]"
         and exc = "JSString ''boom''"]
  from raising [THEN conjunct2, THEN conjunct2, rule_format,
      OF conjI [OF rlen conjI [OF n1 conjI [OF n2 conjI [OF r0 r1]]]]]
  obtain partial where
    thrown: "RJSDictForPropertyArray example_ctx example_schema example_raising_array =
        (Throws (RJSException_ctor example_ctx (JSString ''boom'')), Some partial)"
    and keys: "fst ` set partial = name ` set (take 1 (properties example_schema))"
    by blast
  have "name ` set (take 1 (properties example_schema)) = {''id''}"
    by (simp add: example_schema_def)
  with keys have "fst ` set partial = {''id''}" by simp
  with thrown have second: "\<exists>partial.
      RJSDictForPropertyArray example_ctx example_schema example_raising_array =
        (Throws (RJSException_ctor example_ctx (JSString ''boom'')), Some partial)
    \<and> fst ` set partial = {''id''}"
    by blast
  from first second show ?thesis by (rule conjI)
qed

text \<open>
  Claim C4 as it is written says that the value at each key is the array element at that
  key's schema position, for every schema. With the schema \<open>a, b, a\<close> and the array
  \<open>1, 2, 3\<close> the dictionary is \<open>a: 3, b: 2\<close>: at the name of position 0 it does not hold
  element 0.
\<close>

theorem C4_repeated_name_counterexample:
  "RJSDictForPropertyArray example_ctx example_repeated_schema
      (JSArray [JSNumber (Finite 1), JSNumber (Finite 2), JSNumber (Finite 3)]) =
    (Returns (JSPlain [(''a'', JSNumber (Finite 3)), (''b'', JSNumber (Finite 2))]),
     Some [(''a'', JSNumber (Finite 3)), (''b'', JSNumber (Finite 2))])
 \<and> name (properties example_repeated_schema ! 0) = ''a''
 \<and> map_of [(''a'', JSNumber (Finite 3)), (''b'', JSNumber (Finite 2))] ''a''
      \<noteq> Some ([JSNumber (Finite 1), JSNumber (Finite 2), JSNumber (Finite 3)] ! 0)"
  by (simp add: RJSDictForPropertyArray_def list_length_array example_repeated_schema_def
      JSObjectSetProperty_def)


section \<open>Validated conversions\<close>

text \<open>
  Claim C5. Validated number conversion throws, and returns no number, for \<^verbatim>\<open>null\<close>,
  for a value whose conversion raises a script exception, and for a value whose
  conversion yields not-a-number. \<^verbatim>\<open>null\<close> is rejected by an explicit test with its
  own message, although the engine would convert it to zero. A script exception is
  rethrown as an \<^verbatim>\<open>RJSException\<close> that keeps the raw value.
\<close>

theorem C5_number_conversion_rejects:
  "(JSValueIsNull v \<longrightarrow>
      JSValueToNumber ctx v = Inr (Finite 0)
    \<and> RJSValidatedValueToNumber ctx v = Inl (InvalidArgument ''`null` is not a number.''))
 \<and> (JSValueToNumber ctx v = Inl exc \<longrightarrow>
      RJSValidatedValueToNumber ctx v = Inl (RJSException_ctor ctx exc))
 \<and> (JSValueToNumber ctx v = Inr NaN \<longrightarrow>
      RJSValidatedValueToNumber ctx v = Inl (InvalidArgument ''Value not convertible to a number.''))"
  by (cases v) (auto simp: RJSValidatedValueToNumber_def)

theorem C5_number_conversion_rejects_witness:
  "RJSValidatedValueToNumber example_ctx JSNull = Inl (InvalidArgument ''`null` is not a number.'')
 \<and> RJSValidatedValueToNumber example_ctx (JSObject (JSPlain [])) =
     Inl (RJSException_ctor example_ctx (JSString ''TypeError''))
 \<and> RJSValidatedValueToNumber example_ctx (JSString ''abc'') =
     Inl (InvalidArgument ''Value not convertible to a number.'')"
proof -
  have raises: "JSValueToNumber example_ctx (JSObject (JSPlain [])) = Inl (JSString ''TypeError'')"
    by (simp add: example_ctx_def)
  have nan: "JSValueToNumber example_ctx (JSString ''abc'') = Inr NaN"
    by (simp add: example_ctx_def)
  from C5_number_conversion_rejects [where v = JSNull and ctx = example_ctx]
  have "RJSValidatedValueToNumber example_ctx JSNull =
      Inl (InvalidArgument ''`null` is not a number.'')"
    by simp
  moreover from C5_number_conversion_rejects
      [where v = "JSObject (JSPlain [])" and ctx = example_ctx and exc = "JSString ''TypeError''"]
    raises
  have "RJSValidatedValueToNumber example_ctx (JSObject (JSPlain [])) =
      Inl (RJSException_ctor example_ctx (JSString ''TypeError''))"
    by blast
  moreover from C5_number_conversion_rejects [where v = "JSString ''abc''" and ctx = example_ctx]
    nan
  have "RJSValidatedValueToNumber example_ctx (JSString ''abc'') =
      Inl (InvalidArgument ''Value not convertible to a number.'')"
    by blast
  ultimately show ?thesis by simp
qed

text \<open>
  Claim C6. Validated boolean conversion throws for every value whose kind is not
  boolean, whatever its truthiness; for a boolean it returns the boolean's value (as the
  \<^verbatim>\<open>double\<close> the function is declared to return, one for \<^verbatim>\<open>true\<close> and zero for
  \<^verbatim>\<open>false\<close>).
\<close>

theorem C6_boolean_conversion:
  "(\<not> JSValueIsBoolean v \<longrightarrow>
      RJSValidatedValueToBoolean ctx v = Inl (InvalidArgument ''Value is not a boolean.''))
 \<and> RJSValidatedValueToBoolean ctx (JSBoolean b) = Inr (Finite (if b then 1 else 0))"
  by (simp add: RJSValidatedValueToBoolean_def double_of_bool_def)

theorem C6_boolean_conversion_witness:
  "JSValueToBoolean (JSNumber (Finite 1))
 \<and> RJSValidatedValueToBoolean example_ctx (JSNumber (Finite 1)) =
     Inl (InvalidArgument ''Value is not a boolean.'')
 \<and> RJSValidatedValueToBoolean example_ctx (JSBoolean True) = Inr (Finite 1)"
  using C6_boolean_conversion [where v = "JSNumber (Finite 1)" and ctx = example_ctx and b = True]
  by simp

section \<open>Argument counts\<close>

text \<open>
  Claim C7. With two arguments where three are expected, and no message given,
  \<^verbatim>\<open>RJSValidateArgumentCount\<close> throws \<^verbatim>\<open>std::invalid_argument\<close> with the message
  "Invalid arguments"; with three where three are expected it returns. Whenever the
  counts differ, whatever follows the validation does not run: the block ends with the
  validation's exception.
\<close>

theorem C7_argument_count:
  "RJSValidateArgumentCount 2 3 None = Inl (InvalidArgument ''Invalid arguments'')
 \<and> RJSValidateArgumentCount 3 3 None = Inr ()
 \<and> (argumentCount \<noteq> expected \<longrightarrow>
      and_then (RJSValidateArgumentCount argumentCount expected message) k =
        Inl (InvalidArgument (message_or message ''Invalid arguments'')))"
  by (simp add: RJSValidateArgumentCount_def and_then_def message_or_def)

theorem C7_argument_count_witness:
  "and_then (RJSValidateArgumentCount 2 3 None) (\<lambda>u. Inr (JSBoolean True)) =
     Inl (InvalidArgument ''Invalid arguments'')"
proof -
  have differ: "(2::nat) \<noteq> 3" by simp
  from C7_argument_count
      [where argumentCount = 2 and expected = 3 and message = None
         and k = "\<lambda>u. Inr (JSBoolean True)"] differ
  have "and_then (RJSValidateArgumentCount 2 3 None) (\<lambda>u. Inr (JSBoolean True)) =
      Inl (InvalidArgument (message_or None ''Invalid arguments''))"
    by blast
  then show ?thesis by (simp add: message_or_def)
qed

section \<open>The exception bridge\<close>

lemma error_renders_message:
  "sublist m (RJSStringForValue ctx (JSObject (JSError m raw)))"
proof (cases "m = []")
  case True
  then show ?thesis by simp
next
  case False
  have "sublist m (''Error: '' @ m)"
    by (rule suffix_imp_sublist) (rule suffixI, rule refl)
  moreover have "RJSStringForValue ctx (JSObject (JSError m raw)) = ''Error: '' @ m"
    using False by (simp only: RJSStringForValue.simps if_False)
  ultimately show ?thesis by (simp only:)
qed

text \<open>
  Claim C8. A native exception with message \<open>M\<close>, converted to a script error by
  \<^verbatim>\<open>RJSMakeError\<close>, renders to a string that contains \<open>M\<close>; so does the message of the
  \<^verbatim>\<open>RJSException\<close> built from that script error.
\<close>

theorem C8_message_round_trip:
  "sublist (what e) (RJSStringForValue ctx (RJSMakeError ctx e))
 \<and> sublist (what e) (what (RJSException_ctor ctx (RJSMakeError ctx e)))"
proof -
  have "sublist (what e) (RJSStringForValue ctx (RJSMakeError ctx e))"
    by (cases e)
      (simp_all only: RJSMakeError.simps what.simps RJSMakeError_string_def error_renders_message)
  then show ?thesis by (simp add: RJSException_ctor_def)
qed

section \<open>Finalization of a wrapped object\<close>

text \<open>
  Claim C9. When the private slot of a wrapper object holds an allocated handle,
  \<^verbatim>\<open>RJSFinalize\<close> frees that handle and sets the slot to \<^verbatim>\<open>NULL\<close>, touching no other
  slot; a second \<^verbatim>\<open>RJSFinalize\<close> of the same object finds \<^verbatim>\<open>NULL\<close>, deletes nothing and
  leaves the store as it is.
\<close>

theorem C9_finalize_once:
  "private_slot st object = Some p \<Longrightarrow> p \<in> live st \<Longrightarrow>
   \<exists>st1. RJSFinalize object st = Some st1
     \<and> live st1 = live st - {p}
     \<and> private_slot st1 object = None
     \<and> (\<forall>ob. ob \<noteq> object \<longrightarrow> private_slot st1 ob = private_slot st ob)
     \<and> RJSFinalize object st1 = Some st1"
  by (auto simp: RJSFinalize_def JSObjectGetPrivate_def JSObjectSetPrivate_def delete_handle_def)

theorem C9_finalize_once_witness:
  "\<exists>st1. RJSFinalize 1 example_store = Some st1
     \<and> live st1 = {}
     \<and> private_slot st1 1 = None
     \<and> private_slot st1 2 = private_slot example_store 2
     \<and> RJSFinalize 1 st1 = Some st1"
proof -
  have slot: "private_slot example_store 1 = Some 7" by (simp add: example_store_def)
  have alive: "7 \<in> live example_store" by (simp add: example_store_def)
  have rest: "live example_store - {7} = {}" by (simp add: example_store_def)
  from C9_finalize_once [OF slot alive] obtain st1 where
    "RJSFinalize 1 example_store = Some st1" "live st1 = live example_store - {7}"
    "private_slot st1 1 = None"
    "\<forall>ob. ob \<noteq> 1 \<longrightarrow> private_slot st1 ob = private_slot example_store ob"
    "RJSFinalize 1 st1 = Some st1"
    by blast
  then show ?thesis using rest by auto
qed

section \<open>The property setter adapter\<close>

text \<open>
  Claim C10. The property setter adapter returns \<^verbatim>\<open>true\<close> in every case. When the
  native setter throws, the exception slot holds the script error made from the
  exception, and the adapter still returns \<^verbatim>\<open>true\<close>.
\<close>

theorem C10_property_setter_returns_true:
  "fst (WRAP_PROPERTY_SETTER ctx M p v ex st) = True
 \<and> (M v st = (Inl e, st') \<longrightarrow>
      WRAP_PROPERTY_SETTER ctx M p v ex st = (True, Some (RJSMakeError ctx e), st'))"
  by (auto simp: WRAP_PROPERTY_SETTER_def WRAP_EXCEPTION_def RJSSetException_def
      split: prod.splits sum.splits)

theorem C10_property_setter_returns_true_witness:
  "WRAP_PROPERTY_SETTER example_ctx example_readonly ''title'' JSNull None 0 =
     (True, Some (RJSMakeError example_ctx (RuntimeError ''read-only'')), 0)"
proof -
  have throws: "example_readonly JSNull 0 = (Inl (RuntimeError ''read-only''), 0)"
    by (simp add: example_readonly_def)
  from C10_property_setter_returns_true
      [where M = example_readonly and v = JSNull and st = 0 and e = "RuntimeError ''read-only''"
         and st' = 0 and ctx = example_ctx and p = "''title''" and ex = None] throws
  show ?thesis by blast
qed

end
